theory Spec2Isabelle
  imports Main "HOL-Library.AList"
begin

section \<open>The configuration object\<close>

text \<open>
  \<^verbatim>\<open>rapidmoc.py\<close> holds its configuration in a \<^verbatim>\<open>configparser.ConfigParser\<close>. The object
  is a table of named sections, each a table of options, together with the options of the
  \<^verbatim>\<open>DEFAULT\<close> section, which every existing section falls back to. The methods the
  program calls are \<^verbatim>\<open>has_option\<close>, \<^verbatim>\<open>get\<close>, \<^verbatim>\<open>set\<close> and \<^verbatim>\<open>getboolean\<close>; each
  is written out below with the exceptions it raises. Values are held as the text that
  \<^verbatim>\<open>get\<close> hands back: the rewriting of values that contain a percent sign
  (\<^verbatim>\<open>BasicInterpolation\<close>) is not part of the model.
\<close>

type_synonym options = "(string \<times> string) list"

record config_parser =
  defaults :: options
  sections :: "(string \<times> options) list"

datatype error =
    NoSectionError string
  | NoOptionError string string
  | ValueError string
  | ConfigError string
  | DataLoadError string
  | InterpolationError string
  | ComputationError string

definition lower_char :: "char \<Rightarrow> char" where
  "lower_char c =
     (case map_of (zip ''ABCDEFGHIJKLMNOPQRSTUVWXYZ'' ''abcdefghijklmnopqrstuvwxyz'') c of
        None \<Rightarrow> c
      | Some l \<Rightarrow> l)"

definition lower :: "string \<Rightarrow> string" where
  "lower s = map lower_char s"

text \<open>Option names are folded to lower case before every lookup and every store.\<close>

definition optionxform :: "string \<Rightarrow> string" where
  "optionxform option = lower option"

definition default_section :: string where
  "default_section = ''DEFAULT''"

definition config_has_option :: "config_parser \<Rightarrow> string \<Rightarrow> string \<Rightarrow> bool" where
  "config_has_option cp section option =
     (if section = [] \<or> section = default_section
      then map_of (defaults cp) (optionxform option) \<noteq> None
      else (case map_of (sections cp) section of
              None \<Rightarrow> False
            | Some d \<Rightarrow> map_of d (optionxform option) \<noteq> None
                        \<or> map_of (defaults cp) (optionxform option) \<noteq> None))"

definition config_get :: "config_parser \<Rightarrow> string \<Rightarrow> string \<Rightarrow> error + string" where
  "config_get cp section option =
     (case (case map_of (sections cp) section of
              None \<Rightarrow> if section \<noteq> default_section then Inl (NoSectionError section)
                       else Inr []
            | Some d \<Rightarrow> Inr d) of
        Inl e \<Rightarrow> Inl e
      | Inr d \<Rightarrow>
          (case map_of d (optionxform option) of
             Some v \<Rightarrow> Inr v
           | None \<Rightarrow>
               (case map_of (defaults cp) (optionxform option) of
                  Some v \<Rightarrow> Inr v
                | None \<Rightarrow> Inl (NoOptionError (optionxform option) section))))"

definition config_set ::
  "config_parser \<Rightarrow> string \<Rightarrow> string \<Rightarrow> string \<Rightarrow> error + config_parser" where
  "config_set cp section option v =
     (if section = [] \<or> section = default_section
      then Inr (cp\<lparr>defaults := AList.update (optionxform option) v (defaults cp)\<rparr>)
      else (case map_of (sections cp) section of
              None \<Rightarrow> Inl (NoSectionError section)
            | Some d \<Rightarrow>
                Inr (cp\<lparr>sections :=
                          AList.update section (AList.update (optionxform option) v d)
                            (sections cp)\<rparr>)))"

definition BOOLEAN_STATES :: "(string \<times> bool) list" where
  "BOOLEAN_STATES =
     [(''1'', True), (''yes'', True), (''true'', True), (''on'', True),
      (''0'', False), (''no'', False), (''false'', False), (''off'', False)]"

definition config_getboolean :: "config_parser \<Rightarrow> string \<Rightarrow> string \<Rightarrow> error + bool" where
  "config_getboolean cp section option =
     (case config_get cp section option of
        Inl e \<Rightarrow> Inl e
      | Inr v \<Rightarrow>
          (case map_of BOOLEAN_STATES (lower v) of
             None \<Rightarrow> Inl (ValueError (''Not a boolean: '' @ v))
           | Some b \<Rightarrow> Inr b))"


section \<open>Command line, collaborating modules and runs\<close>

text \<open>The namespace that \<^verbatim>\<open>get_args\<close> returns: five positional paths and the two
  optional overrides, each \<^verbatim>\<open>None\<close> unless given.\<close>

record args =
  config_file :: string
  tfile :: string
  sfile :: string
  taufile :: string
  vfile :: string
  name :: "string option"
  outdir :: "string option"

datatype obs_kind = HeatTransport | FloridaCurrent | StreamFunction | VolumeTransport

text \<open>The keyword arguments of one call of \<^verbatim>\<open>plotdiag.plot_diagnostics\<close>.\<close>

record ('trans, 'obs) plot_call =
  p_trans :: 'trans
  p_name :: string
  p_outdir :: string
  p_date_format :: string
  p_obs_vol :: "'obs option"
  p_obs_fc :: "'obs option"
  p_obs_oht :: "'obs option"
  p_obs_sf :: "'obs option"

text \<open>
  Modelled from the spec: the modules \<^verbatim>\<open>sections\<close>, \<^verbatim>\<open>transports\<close>,
  \<^verbatim>\<open>observations\<close> and \<^verbatim>\<open>plotdiag\<close> are imported by \<^verbatim>\<open>rapidmoc.py\<close> and their
  code is not at hand. Each entry point is a parameter: a function of the arguments it is
  called with that either raises or returns a new object, and that leaves its arguments
  (the configuration among them) as they were, as the design states for every stage.
  The objects themselves (sections, the transport result, observation sets) are left
  abstract.
\<close>

record ('sec, 'trans, 'obs) modules =
  sections_ZonalSections :: "string \<Rightarrow> config_parser \<Rightarrow> string \<Rightarrow> error + 'sec"
  sections_interpolate :: "'sec \<Rightarrow> 'sec \<Rightarrow> error + 'sec"
  transports_calc_transports_from_sections ::
    "config_parser \<Rightarrow> 'sec \<Rightarrow> 'sec \<Rightarrow> 'sec \<Rightarrow> 'sec \<Rightarrow> error + 'trans"
  observations_HeatTransportObs :: "string \<Rightarrow> string option \<Rightarrow> error + 'obs"
  observations_FloridaCurrentObs :: "string \<Rightarrow> string option \<Rightarrow> error + 'obs"
  observations_StreamFunctionObs :: "string \<Rightarrow> string option \<Rightarrow> error + 'obs"
  observations_VolumeTransportObs :: "string \<Rightarrow> string option \<Rightarrow> error + 'obs"
  plotdiag_plot_diagnostics :: "('trans, 'obs) plot_call \<Rightarrow> error + unit"
  trans_filepath :: "'trans \<Rightarrow> string"

text \<open>What a run does to the outside, in the order it does it.\<close>

datatype ('sec, 'trans, 'obs) event =
    LoadSection string config_parser string
  | Interpolate 'sec 'sec
  | CalcTransports config_parser 'sec 'sec 'sec 'sec
  | LoadObs obs_kind string "string option"
  | PlotDiagnostics "('trans, 'obs) plot_call"
  | Print string
  | Close 'trans

text \<open>A run of statements starts from the configuration object as it then is and
  yields three things: what it returns or raises, the configuration object as it has
  become, and the calls it has made, oldest first.\<close>

type_synonym ('a, 'sec, 'trans, 'obs) run =
  "config_parser \<Rightarrow> (error + 'a) \<times> config_parser \<times> ('sec, 'trans, 'obs) event list"

definition return :: "'a \<Rightarrow> ('a, 'sec, 'trans, 'obs) run" where
  "return x cp = (Inr x, cp, [])"

text \<open>Statement sequencing: an exception leaves the rest unexecuted.\<close>

definition seq ::
  "('a, 'sec, 'trans, 'obs) run \<Rightarrow> ('a \<Rightarrow> ('b, 'sec, 'trans, 'obs) run)
     \<Rightarrow> ('b, 'sec, 'trans, 'obs) run" where
  "seq m f cp =
     (case m cp of
        (Inl e, cp', tr) \<Rightarrow> (Inl e, cp', tr)
      | (Inr x, cp', tr) \<Rightarrow> (case f x cp' of (r, cp'', tr') \<Rightarrow> (r, cp'', tr @ tr')))"

definition call ::
  "('sec, 'trans, 'obs) event \<Rightarrow> error + 'a \<Rightarrow> ('a, 'sec, 'trans, 'obs) run" where
  "call ev r cp = (r, cp, [ev])"

definition read_config ::
  "(config_parser \<Rightarrow> error + 'a) \<Rightarrow> ('a, 'sec, 'trans, 'obs) run" where
  "read_config f cp = (f cp, cp, [])"

definition write_config ::
  "(config_parser \<Rightarrow> error + config_parser) \<Rightarrow> (unit, 'sec, 'trans, 'obs) run" where
  "write_config f cp =
     (case f cp of Inl e \<Rightarrow> (Inl e, cp, []) | Inr cp' \<Rightarrow> (Inr (), cp', []))"

definition ZonalSections ::
  "('sec, 'trans, 'obs) modules \<Rightarrow> string \<Rightarrow> string \<Rightarrow> ('sec, 'sec, 'trans, 'obs) run" where
  "ZonalSections m path kind cp =
     call (LoadSection path cp kind) (sections_ZonalSections m path cp kind) cp"

definition interpolate ::
  "('sec, 'trans, 'obs) modules \<Rightarrow> 'sec \<Rightarrow> 'sec \<Rightarrow> ('sec, 'sec, 'trans, 'obs) run" where
  "interpolate m src tgt = call (Interpolate src tgt) (sections_interpolate m src tgt)"

definition calc_transports_from_sections ::
  "('sec, 'trans, 'obs) modules \<Rightarrow> 'sec \<Rightarrow> 'sec \<Rightarrow> 'sec \<Rightarrow> 'sec
     \<Rightarrow> ('trans, 'sec, 'trans, 'obs) run" where
  "calc_transports_from_sections m v tau t_on_v s_on_v cp =
     call (CalcTransports cp v tau t_on_v s_on_v)
       (transports_calc_transports_from_sections m cp v tau t_on_v s_on_v) cp"

definition HeatTransportObs ::
  "('sec, 'trans, 'obs) modules \<Rightarrow> string \<Rightarrow> string option \<Rightarrow> ('obs, 'sec, 'trans, 'obs) run" where
  "HeatTransportObs m f time_avg =
     call (LoadObs HeatTransport f time_avg) (observations_HeatTransportObs m f time_avg)"

definition FloridaCurrentObs ::
  "('sec, 'trans, 'obs) modules \<Rightarrow> string \<Rightarrow> string option \<Rightarrow> ('obs, 'sec, 'trans, 'obs) run" where
  "FloridaCurrentObs m f time_avg =
     call (LoadObs FloridaCurrent f time_avg) (observations_FloridaCurrentObs m f time_avg)"

definition StreamFunctionObs ::
  "('sec, 'trans, 'obs) modules \<Rightarrow> string \<Rightarrow> string option \<Rightarrow> ('obs, 'sec, 'trans, 'obs) run" where
  "StreamFunctionObs m f time_avg =
     call (LoadObs StreamFunction f time_avg) (observations_StreamFunctionObs m f time_avg)"

definition VolumeTransportObs ::
  "('sec, 'trans, 'obs) modules \<Rightarrow> string \<Rightarrow> string option \<Rightarrow> ('obs, 'sec, 'trans, 'obs) run" where
  "VolumeTransportObs m f time_avg =
     call (LoadObs VolumeTransport f time_avg) (observations_VolumeTransportObs m f time_avg)"

definition plot_diagnostics ::
  "('sec, 'trans, 'obs) modules \<Rightarrow> ('trans, 'obs) plot_call \<Rightarrow> (unit, 'sec, 'trans, 'obs) run" where
  "plot_diagnostics m p = call (PlotDiagnostics p) (plotdiag_plot_diagnostics m p)"

text \<open>\<^verbatim>\<open>print\<close> and the two methods of the transport result that \<^verbatim>\<open>main\<close> calls,
  \<^verbatim>\<open>filepath\<close> and \<^verbatim>\<open>close\<close>, are taken to return.\<close>

definition print :: "string \<Rightarrow> (unit, 'sec, 'trans, 'obs) run" where
  "print line = call (Print line) (Inr ())"

definition close :: "'trans \<Rightarrow> (unit, 'sec, 'trans, 'obs) run" where
  "close trans' = call (Close trans') (Inr ())"


section \<open>The routines of rapidmoc.py\<close>

text \<open>\<^verbatim>\<open>get_config_opt\<close>: the option if it exists, else \<^verbatim>\<open>None\<close>.\<close>

definition get_config_opt ::
  "config_parser \<Rightarrow> string \<Rightarrow> string \<Rightarrow> error + string option" where
  "get_config_opt cp section option =
     (if config_has_option cp section option
      then (case config_get cp section option of Inl e \<Rightarrow> Inl e | Inr v \<Rightarrow> Inr (Some v))
      else Inr None)"

text \<open>One of the four guarded loads of \<^verbatim>\<open>call_plotdiag\<close>:
  \<^verbatim>\<open>if obs_f is not None: obs = Loader(obs_f, time_avg=time_avg)\<close>, the variable
  staying \<^verbatim>\<open>None\<close> otherwise.\<close>

definition load_if_specified ::
  "(string \<Rightarrow> string option \<Rightarrow> ('obs, 'sec, 'trans, 'obs) run) \<Rightarrow> string option
     \<Rightarrow> string option \<Rightarrow> ('obs option, 'sec, 'trans, 'obs) run" where
  "load_if_specified loader obs_f time_avg =
     (case obs_f of
        None \<Rightarrow> return None
      | Some f \<Rightarrow> seq (loader f time_avg) (\<lambda>obs. return (Some obs)))"

definition call_plotdiag ::
  "('sec, 'trans, 'obs) modules \<Rightarrow> 'trans \<Rightarrow> (unit, 'sec, 'trans, 'obs) run" where
  "call_plotdiag m trans' =
     seq (read_config (\<lambda>cp. get_config_opt cp ''observations'' ''time_avg'')) (\<lambda>time_avg.
     seq (read_config (\<lambda>cp. get_config_opt cp ''observations'' ''streamfunctions'')) (\<lambda>obs_sf_f.
     seq (read_config (\<lambda>cp. get_config_opt cp ''observations'' ''florida_current'')) (\<lambda>obs_fc_f.
     seq (read_config (\<lambda>cp. get_config_opt cp ''observations'' ''volume_transports'')) (\<lambda>obs_vol_f.
     seq (read_config (\<lambda>cp. get_config_opt cp ''observations'' ''heat_transports'')) (\<lambda>obs_oht_f.
     seq (load_if_specified (HeatTransportObs m) obs_oht_f time_avg) (\<lambda>obs_oht.
     seq (load_if_specified (FloridaCurrentObs m) obs_fc_f time_avg) (\<lambda>obs_fc.
     seq (load_if_specified (StreamFunctionObs m) obs_sf_f time_avg) (\<lambda>obs_sf.
     seq (load_if_specified (VolumeTransportObs m) obs_vol_f time_avg) (\<lambda>obs_vol.
     seq (read_config (\<lambda>cp. config_get cp ''output'' ''outdir'')) (\<lambda>outdir'.
     seq (read_config (\<lambda>cp. config_get cp ''output'' ''date_format'')) (\<lambda>date_format.
     seq (read_config (\<lambda>cp. config_get cp ''output'' ''name'')) (\<lambda>name'.
     plot_diagnostics m
       \<lparr>p_trans = trans', p_name = name', p_outdir = outdir', p_date_format = date_format,
        p_obs_vol = obs_vol, p_obs_fc = obs_fc, p_obs_oht = obs_oht, p_obs_sf = obs_sf\<rparr>
     ))))))))))))"

text \<open>The head of \<^verbatim>\<open>main\<close>: the two overrides are written into the configuration
  object, each only when given.\<close>

definition update_config :: "args \<Rightarrow> (unit, 'sec, 'trans, 'obs) run" where
  "update_config a =
     seq (case name a of
            None \<Rightarrow> return ()
          | Some n \<Rightarrow> write_config (\<lambda>cp. config_set cp ''output'' ''name'' n)) (\<lambda>_.
     (case outdir a of
        None \<Rightarrow> return ()
      | Some d \<Rightarrow> write_config (\<lambda>cp. config_set cp ''output'' ''outdir'' d)))"

text \<open>The rest of \<^verbatim>\<open>main\<close>, from \<^verbatim>\<open># Read data\<close> to \<^verbatim>\<open>trans.close()\<close>.\<close>

definition run_pipeline ::
  "('sec, 'trans, 'obs) modules \<Rightarrow> args \<Rightarrow> (unit, 'sec, 'trans, 'obs) run" where
  "run_pipeline m a =
     seq (ZonalSections m (tfile a) ''temperature'') (\<lambda>t.
     seq (ZonalSections m (sfile a) ''salinity'') (\<lambda>s.
     seq (ZonalSections m (taufile a) ''taux'') (\<lambda>tau.
     seq (ZonalSections m (vfile a) ''meridional_velocity'') (\<lambda>v.
     seq (interpolate m t v) (\<lambda>t_on_v.
     seq (interpolate m s v) (\<lambda>s_on_v.
     seq (calc_transports_from_sections m v tau t_on_v s_on_v) (\<lambda>trans'.
     seq (read_config (\<lambda>cp. config_getboolean cp ''output'' ''plot'')) (\<lambda>plot.
     seq (if plot then call_plotdiag m trans' else return ()) (\<lambda>_.
     seq (print (''SAVING: '' @ trans_filepath m trans')) (\<lambda>_.
     close trans'))))))))))"

text \<open>\<^verbatim>\<open>main\<close>, started on the configuration that \<^verbatim>\<open>get_config\<close> has read.\<close>

definition main ::
  "('sec, 'trans, 'obs) modules \<Rightarrow> args \<Rightarrow> config_parser
     \<Rightarrow> (error + unit) \<times> config_parser \<times> ('sec, 'trans, 'obs) event list" where
  "main m a cp = seq (update_config a) (\<lambda>_. run_pipeline m a) cp"


section \<open>Reading a run\<close>

text \<open>The kinds of call a run makes.\<close>

fun is_obs :: "('sec, 'trans, 'obs) event \<Rightarrow> bool" where
  "is_obs (LoadObs k f ta) = True"
| "is_obs ev = False"

fun is_plot :: "('sec, 'trans, 'obs) event \<Rightarrow> bool" where
  "is_plot (PlotDiagnostics p) = True"
| "is_plot ev = False"

fun is_print :: "('sec, 'trans, 'obs) event \<Rightarrow> bool" where
  "is_print (Print line) = True"
| "is_print ev = False"

fun is_close :: "('sec, 'trans, 'obs) event \<Rightarrow> bool" where
  "is_close (Close t) = True"
| "is_close ev = False"

fun is_calc :: "('sec, 'trans, 'obs) event \<Rightarrow> bool" where
  "is_calc (CalcTransports c v tau t s) = True"
| "is_calc ev = False"

text \<open>The place of a call in the pipeline: the four section loads by field, the
  interpolations, the transport computation, the observation loads, the report, the
  message and the close.\<close>

fun stage_rank :: "('sec, 'trans, 'obs) event \<Rightarrow> nat" where
  "stage_rank (LoadSection p c k) =
     (if k = ''temperature'' then 0 else if k = ''salinity'' then 1
      else if k = ''taux'' then 2 else 3)"
| "stage_rank (Interpolate src tgt) = 4"
| "stage_rank (CalcTransports c v tau t s) = 5"
| "stage_rank (LoadObs k f ta) = 6"
| "stage_rank (PlotDiagnostics p) = 7"
| "stage_rank (Print line) = 8"
| "stage_rank (Close t) = 9"

definition error_of :: "error + 'a \<Rightarrow> error option" where
  "error_of r = (case r of Inl e \<Rightarrow> Some e | Inr x \<Rightarrow> None)"

text \<open>The exception, if any, that a recorded call ended with.\<close>

fun raised :: "('sec, 'trans, 'obs) modules \<Rightarrow> ('sec, 'trans, 'obs) event \<Rightarrow> error option" where
  "raised m (LoadSection p c k) = error_of (sections_ZonalSections m p c k)"
| "raised m (Interpolate src tgt) = error_of (sections_interpolate m src tgt)"
| "raised m (CalcTransports c v tau t s) =
     error_of (transports_calc_transports_from_sections m c v tau t s)"
| "raised m (LoadObs HeatTransport f ta) = error_of (observations_HeatTransportObs m f ta)"
| "raised m (LoadObs FloridaCurrent f ta) = error_of (observations_FloridaCurrentObs m f ta)"
| "raised m (LoadObs StreamFunction f ta) = error_of (observations_StreamFunctionObs m f ta)"
| "raised m (LoadObs VolumeTransport f ta) = error_of (observations_VolumeTransportObs m f ta)"
| "raised m (PlotDiagnostics p) = error_of (plotdiag_plot_diagnostics m p)"
| "raised m (Print line) = None"
| "raised m (Close t) = None"

text \<open>The transport result, if any, that a recorded call returned.\<close>

fun created :: "('sec, 'trans, 'obs) modules \<Rightarrow> ('sec, 'trans, 'obs) event \<Rightarrow> 'trans option" where
  "created m (CalcTransports c v tau t s) =
     (case transports_calc_transports_from_sections m c v tau t s of
        Inl e \<Rightarrow> None
      | Inr trn \<Rightarrow> Some trn)"
| "created m ev = None"

text \<open>A run started on \<open>cp\<close> leaves the configuration as it was, and its outcome and
  calls satisfy \<open>P\<close>.\<close>

definition holds ::
  "('a, 'sec, 'trans, 'obs) run \<Rightarrow> config_parser
     \<Rightarrow> (error + 'a \<Rightarrow> ('sec, 'trans, 'obs) event list \<Rightarrow> bool) \<Rightarrow> bool" where
  "holds m cp P = (case m cp of (r, cp', tr) \<Rightarrow> cp' = cp \<and> P r tr)"


section \<open>Sample runs\<close>

text \<open>A configuration with an output section that asks for plots and an observations
  section that names two of the four sources; collaborators that always return; and a
  command line that overrides the name only.\<close>

definition sample_config :: config_parser where
  "sample_config =
     \<lparr>defaults = [],
      sections =
        [(''output'', [(''name'', ''run1''), (''outdir'', ''/out''),
                       (''date_format'', ''Y-m''), (''plot'', ''True'')]),
         (''observations'', [(''time_avg'', ''monthly''), (''heat_transports'', ''oht.nc''),
                             (''florida_current'', ''fc.nc'')])]\<rparr>"

definition sample_modules :: "(string, string, string) modules" where
  "sample_modules =
     \<lparr>sections_ZonalSections = (\<lambda>path cp kind. Inr kind),
      sections_interpolate = (\<lambda>src tgt. Inr (src @ ''_on_v'')),
      transports_calc_transports_from_sections = (\<lambda>cp v tau t s. Inr ''trans''),
      observations_HeatTransportObs = (\<lambda>f ta. Inr f),
      observations_FloridaCurrentObs = (\<lambda>f ta. Inr f),
      observations_StreamFunctionObs = (\<lambda>f ta. Inr f),
      observations_VolumeTransportObs = (\<lambda>f ta. Inr f),
      plotdiag_plot_diagnostics = (\<lambda>p. Inr ()),
      trans_filepath = (\<lambda>t. ''/out/run2.nc'')\<rparr>"

definition sample_args :: args where
  "sample_args =
     \<lparr>config_file = ''config.ini'', tfile = ''t.nc'', sfile = ''s.nc'', taufile = ''tau.nc'',
      vfile = ''v.nc'', name = Some ''run2'', outdir = None\<rparr>"

text \<open>The sample configuration once the command line has been applied to it.\<close>

definition sample_merged :: config_parser where
  "sample_merged =
     \<lparr>defaults = [],
      sections =
        [(''output'', [(''name'', ''run2''), (''outdir'', ''/out''),
                       (''date_format'', ''Y-m''), (''plot'', ''True'')]),
         (''observations'', [(''time_avg'', ''monthly''), (''heat_transports'', ''oht.nc''),
                             (''florida_current'', ''fc.nc'')])]\<rparr>"

text \<open>The calls of the sample run up to and including the transport computation.\<close>

definition sample_stages :: "(string, string, string) event list" where
  "sample_stages =
     [LoadSection ''t.nc'' sample_merged ''temperature'',
      LoadSection ''s.nc'' sample_merged ''salinity'',
      LoadSection ''tau.nc'' sample_merged ''taux'',
      LoadSection ''v.nc'' sample_merged ''meridional_velocity'',
      Interpolate ''temperature'' ''meridional_velocity'',
      Interpolate ''salinity'' ''meridional_velocity'',
      CalcTransports sample_merged ''meridional_velocity'' ''taux''
        ''temperature_on_v'' ''salinity_on_v'']"

text \<open>The one call of the plotting routine in the sample run.\<close>

definition sample_plot :: "(string, string) plot_call" where
  "sample_plot =
     \<lparr>p_trans = ''trans'', p_name = ''run2'', p_outdir = ''/out'', p_date_format = ''Y-m'',
      p_obs_vol = None, p_obs_fc = Some ''fc.nc'', p_obs_oht = Some ''oht.nc'',
      p_obs_sf = None\<rparr>"

text \<open>The same collaborators, but the plotting routine raises.\<close>

definition plot_fails :: "(string, string, string) modules" where
  "plot_fails =
     sample_modules\<lparr>plotdiag_plot_diagnostics := (\<lambda>p. Inl (ComputationError ''plot''))\<rparr>"

text \<open>The same collaborators, but the temperature file lacks its variable.\<close>

definition temperature_missing :: "(string, string, string) modules" where
  "temperature_missing =
     sample_modules\<lparr>sections_ZonalSections :=
       (\<lambda>path cp kind. if kind = ''temperature'' then Inl (DataLoadError path) else Inr kind)\<rparr>"

text \<open>The same configuration without its observations section, and with plots off.\<close>

definition no_observations :: config_parser where
  "no_observations =
     \<lparr>defaults = [],
      sections =
        [(''output'', [(''name'', ''run1''), (''outdir'', ''/out''),
                       (''date_format'', ''Y-m''), (''plot'', ''True'')])]\<rparr>"

definition plot_off :: config_parser where
  "plot_off =
     \<lparr>defaults = [],
      sections =
        [(''output'', [(''name'', ''run1''), (''outdir'', ''/out''),
                       (''date_format'', ''Y-m''), (''plot'', ''no'')]),
         (''observations'', [(''heat_transports'', ''oht.nc'')])]\<rparr>"


section \<open>Lookups in the configuration\<close>

lemma optionxform_literals [simp]:
  "optionxform ''name'' = ''name''"
  "optionxform ''outdir'' = ''outdir''"
  "optionxform ''date_format'' = ''date_format''"
  "optionxform ''plot'' = ''plot''"
  "optionxform ''time_avg'' = ''time_avg''"
  "optionxform ''streamfunctions'' = ''streamfunctions''"
  "optionxform ''florida_current'' = ''florida_current''"
  "optionxform ''volume_transports'' = ''volume_transports''"
  "optionxform ''heat_transports'' = ''heat_transports''"
  by (simp_all add: optionxform_def lower_def lower_char_def)


lemma get_config_opt_None_iff:
  "section \<noteq> [] \<Longrightarrow>
     get_config_opt cp section option = Inr None \<longleftrightarrow> \<not> config_has_option cp section option"
  by (auto simp: get_config_opt_def config_has_option_def config_get_def
      split: option.splits sum.splits if_splits)

lemma get_config_opt_Some_iff:
  "get_config_opt cp section option = Inr (Some f) \<longleftrightarrow>
     config_has_option cp section option \<and> config_get cp section option = Inr f"
  by (auto simp: get_config_opt_def split: sum.splits if_splits)

lemma config_get_after_set:
  assumes "config_set cp section option v = Inr cp'"
    and "section \<noteq> []" and "section \<noteq> default_section"
  shows "config_get cp' section option' =
           (if optionxform option' = optionxform option then Inr v
            else config_get cp section option')"
  using assms
  by (auto simp: config_set_def config_get_def update_conv' split: option.splits if_splits)

section \<open>Rules for runs\<close>

lemma holdsD: "holds m cp P \<Longrightarrow> m cp = (r, cp', tr) \<Longrightarrow> cp' = cp \<and> P r tr"
  by (simp add: holds_def)

lemma holds_return: "P (Inr x) [] \<Longrightarrow> holds (return x) cp P"
  by (simp add: holds_def return_def)

lemma holds_call: "P r [ev] \<Longrightarrow> holds (call ev r) cp P"
  by (simp add: holds_def call_def)

lemma holds_read: "P (g cp) [] \<Longrightarrow> holds (read_config g) cp P"
  by (simp add: holds_def read_config_def)

lemma holds_seq:
  assumes "holds m cp Q"
    and "\<And>e tr. Q (Inl e) tr \<Longrightarrow> P (Inl e) tr"
    and "\<And>x tr1. Q (Inr x) tr1 \<Longrightarrow> holds (f x) cp (\<lambda>r tr2. P r (tr1 @ tr2))"
  shows "holds (seq m f) cp P"
proof -
  obtain r1 c1 tr1 where m: "m cp = (r1, c1, tr1)"
    by (cases "m cp")
  with assms(1) have c1: "c1 = cp" and Q: "Q r1 tr1"
    by (simp_all add: holds_def)
  show ?thesis
  proof (cases r1)
    case (Inl e)
    with m c1 Q assms(2) show ?thesis
      by (simp add: holds_def seq_def)
  next
    case (Inr x)
    with Q have "holds (f x) cp (\<lambda>r tr2. P r (tr1 @ tr2))"
      using assms(3) by simp
    with m c1 Inr show ?thesis
      by (simp add: holds_def seq_def split: prod.splits)
  qed
qed

lemma holds_seq_read:
  assumes "\<And>e. g cp = Inl e \<Longrightarrow> P (Inl e) []"
    and "\<And>x. g cp = Inr x \<Longrightarrow> holds (f x) cp P"
  shows "holds (seq (read_config g) f) cp P"
  by (rule holds_seq [where Q = "\<lambda>r tr. r = g cp \<and> tr = []"])
    (simp_all add: holds_read assms)

lemma holds_seq_call:
  assumes "\<And>e. r = Inl e \<Longrightarrow> P (Inl e) [ev]"
    and "\<And>x. r = Inr x \<Longrightarrow> holds (f x) cp (\<lambda>r2 tr2. P r2 (ev # tr2))"
  shows "holds (seq (call ev r) f) cp P"
  by (rule holds_seq [where Q = "\<lambda>r' tr. r' = r \<and> tr = [ev]"])
    (simp_all add: holds_call assms)

lemma holds_load:
  "holds (load_if_specified (\<lambda>f ta. call (E f ta) (G f ta)) obs_f ta) cp
     (\<lambda>r tr. case obs_f of
        None \<Rightarrow> r = Inr None \<and> tr = []
      | Some f \<Rightarrow> tr = [E f ta] \<and>
          (case G f ta of Inl e \<Rightarrow> r = Inl e | Inr ob \<Rightarrow> r = Inr (Some ob)))"
  by (simp add: holds_def load_if_specified_def return_def seq_def call_def
      split: option.splits sum.splits)

lemma holds_seq_load:
  assumes "\<And>f e. obs_f = Some f \<Longrightarrow> G f ta = Inl e \<Longrightarrow> P (Inl e) [E f ta]"
    and "obs_f = None \<Longrightarrow> holds (k None) cp P"
    and "\<And>f ob. obs_f = Some f \<Longrightarrow> G f ta = Inr ob
           \<Longrightarrow> holds (k (Some ob)) cp (\<lambda>r tr. P r (E f ta # tr))"
  shows "holds (seq (load_if_specified (\<lambda>f ta. call (E f ta) (G f ta)) obs_f ta) k) cp P"
  apply (rule holds_seq [OF holds_load])
  using assms by (auto split: option.splits sum.splits)

lemmas loader_defs = HeatTransportObs_def[abs_def] FloridaCurrentObs_def[abs_def]
  StreamFunctionObs_def[abs_def] VolumeTransportObs_def[abs_def]

lemmas call_plotdiag_rules = holds_seq_read holds_seq_load holds_call

section \<open>call_plotdiag\<close>

lemma call_plotdiag_time_avg_holds:
  "holds (call_plotdiag m trn) cp
     (\<lambda>r tr. \<forall>k f ta. LoadObs k f ta \<in> set tr \<longrightarrow>
        get_config_opt cp ''observations'' ''time_avg'' = Inr ta)"
  unfolding call_plotdiag_def loader_defs plot_diagnostics_def
  by (intro call_plotdiag_rules; simp)

lemma call_plotdiag_quiet_holds:
  "holds (call_plotdiag m trn) cp
     (\<lambda>r tr. \<forall>ev\<in>set tr. \<not> is_print ev \<and> \<not> is_close ev \<and> created m ev = None)"
  unfolding call_plotdiag_def loader_defs plot_diagnostics_def
  by (intro call_plotdiag_rules; simp)

lemma call_plotdiag_kinds_holds:
  "holds (call_plotdiag m trn) cp (\<lambda>r tr. \<forall>ev\<in>set tr. is_obs ev \<or> is_plot ev)"
  unfolding call_plotdiag_def loader_defs plot_diagnostics_def
  by (intro call_plotdiag_rules; simp)

lemma call_plotdiag_rank_holds:
  "holds (call_plotdiag m trn) cp
     (\<lambda>r tr. sorted (map stage_rank tr)
        \<and> (\<forall>ev\<in>set tr. 6 \<le> stage_rank ev \<and> stage_rank ev \<le> 7))"
  unfolding call_plotdiag_def loader_defs plot_diagnostics_def
  by (intro call_plotdiag_rules; simp)

lemma call_plotdiag_args_holds:
  "holds (call_plotdiag m trn) cp
     (\<lambda>r tr. (\<forall>ev\<in>set tr. is_obs ev \<or> is_plot ev)
        \<and> (\<forall>p. PlotDiagnostics p \<in> set tr \<longrightarrow>
              p_trans p = trn
              \<and> config_get cp ''output'' ''name'' = Inr (p_name p)
              \<and> config_get cp ''output'' ''outdir'' = Inr (p_outdir p)
              \<and> config_get cp ''output'' ''date_format'' = Inr (p_date_format p)))"
  unfolding call_plotdiag_def loader_defs plot_diagnostics_def
  by (intro call_plotdiag_rules; simp)

lemma call_plotdiag_reached_holds:
  "holds (call_plotdiag m trn) cp
     (\<lambda>r tr. (\<forall>ev\<in>set tr. is_obs ev \<or> is_plot ev)
        \<and> (r = Inr () \<longrightarrow> (\<exists>p. PlotDiagnostics p \<in> set tr)))"
  unfolding call_plotdiag_def loader_defs plot_diagnostics_def
  by (intro call_plotdiag_rules; simp)

lemma call_plotdiag_raised_holds:
  "holds (call_plotdiag m trn) cp
     (\<lambda>r tr. (\<forall>ev\<in>set (butlast tr). raised m ev = None)
        \<and> (\<forall>e. tr \<noteq> [] \<longrightarrow> raised m (last tr) = Some e \<longrightarrow> r = Inl e)
        \<and> (r = Inr () \<longrightarrow> (\<forall>ev\<in>set tr. raised m ev = None)))"
  unfolding call_plotdiag_def loader_defs plot_diagnostics_def
  by (intro call_plotdiag_rules; simp add: error_of_def split: sum.splits)


lemma call_plotdiag_observations_holds:
  "holds (call_plotdiag m trn) cp
     (\<lambda>r tr.
        (\<forall>p. PlotDiagnostics p \<in> set tr \<longrightarrow>
           (p_obs_oht p \<noteq> None \<longleftrightarrow> config_has_option cp ''observations'' ''heat_transports'')
         \<and> (\<forall>ob. p_obs_oht p = Some ob \<longrightarrow>
               (\<exists>f ta. config_get cp ''observations'' ''heat_transports'' = Inr f
                  \<and> LoadObs HeatTransport f ta \<in> set tr
                  \<and> observations_HeatTransportObs m f ta = Inr ob))
         \<and> (p_obs_fc p \<noteq> None \<longleftrightarrow> config_has_option cp ''observations'' ''florida_current'')
         \<and> (\<forall>ob. p_obs_fc p = Some ob \<longrightarrow>
               (\<exists>f ta. config_get cp ''observations'' ''florida_current'' = Inr f
                  \<and> LoadObs FloridaCurrent f ta \<in> set tr
                  \<and> observations_FloridaCurrentObs m f ta = Inr ob))
         \<and> (p_obs_sf p \<noteq> None \<longleftrightarrow> config_has_option cp ''observations'' ''streamfunctions'')
         \<and> (\<forall>ob. p_obs_sf p = Some ob \<longrightarrow>
               (\<exists>f ta. config_get cp ''observations'' ''streamfunctions'' = Inr f
                  \<and> LoadObs StreamFunction f ta \<in> set tr
                  \<and> observations_StreamFunctionObs m f ta = Inr ob))
         \<and> (p_obs_vol p \<noteq> None \<longleftrightarrow> config_has_option cp ''observations'' ''volume_transports'')
         \<and> (\<forall>ob. p_obs_vol p = Some ob \<longrightarrow>
               (\<exists>f ta. config_get cp ''observations'' ''volume_transports'' = Inr f
                  \<and> LoadObs VolumeTransport f ta \<in> set tr
                  \<and> observations_VolumeTransportObs m f ta = Inr ob)))
      \<and> (\<forall>k f ta. LoadObs k f ta \<in> set tr \<longrightarrow>
            config_has_option cp ''observations''
              (case k of HeatTransport \<Rightarrow> ''heat_transports''
               | FloridaCurrent \<Rightarrow> ''florida_current''
               | StreamFunction \<Rightarrow> ''streamfunctions''
               | VolumeTransport \<Rightarrow> ''volume_transports'')))"
  unfolding call_plotdiag_def loader_defs plot_diagnostics_def
  by (intro call_plotdiag_rules; simp add: get_config_opt_None_iff get_config_opt_Some_iff)


section \<open>Rules for the pipeline\<close>

lemma holds_ZonalSections:
  "P (sections_ZonalSections m path cp kind) [LoadSection path cp kind]
     \<Longrightarrow> holds (ZonalSections m path kind) cp P"
  by (simp add: holds_def ZonalSections_def call_def)

lemma holds_seq_ZonalSections:
  assumes "\<And>e. sections_ZonalSections m path cp kind = Inl e
             \<Longrightarrow> P (Inl e) [LoadSection path cp kind]"
    and "\<And>x. sections_ZonalSections m path cp kind = Inr x
           \<Longrightarrow> holds (f x) cp (\<lambda>r tr. P r (LoadSection path cp kind # tr))"
  shows "holds (seq (ZonalSections m path kind) f) cp P"
  by (rule holds_seq [where Q = "\<lambda>r tr. r = sections_ZonalSections m path cp kind
        \<and> tr = [LoadSection path cp kind]"])
    (simp_all add: holds_ZonalSections assms)

lemma holds_calc_transports:
  "P (transports_calc_transports_from_sections m cp v tau t s) [CalcTransports cp v tau t s]
     \<Longrightarrow> holds (calc_transports_from_sections m v tau t s) cp P"
  by (simp add: holds_def calc_transports_from_sections_def call_def)

lemma holds_seq_calc_transports:
  assumes "\<And>e. transports_calc_transports_from_sections m cp v tau t s = Inl e
             \<Longrightarrow> P (Inl e) [CalcTransports cp v tau t s]"
    and "\<And>x. transports_calc_transports_from_sections m cp v tau t s = Inr x
           \<Longrightarrow> holds (f x) cp (\<lambda>r tr. P r (CalcTransports cp v tau t s # tr))"
  shows "holds (seq (calc_transports_from_sections m v tau t s) f) cp P"
  by (rule holds_seq [where Q = "\<lambda>r tr. r = transports_calc_transports_from_sections m cp v tau t s
        \<and> tr = [CalcTransports cp v tau t s]"])
    (simp_all add: holds_calc_transports assms)

lemma holds_seq_plot:
  assumes "holds m1 cp Q"
    and "\<And>e tr. b \<Longrightarrow> Q (Inl e) tr \<Longrightarrow> P (Inl e) tr"
    and "\<And>tr1. b \<Longrightarrow> Q (Inr ()) tr1 \<Longrightarrow> holds (f ()) cp (\<lambda>r tr2. P r (tr1 @ tr2))"
    and "\<not> b \<Longrightarrow> holds (f ()) cp P"
  shows "holds (seq (if b then m1 else return ()) f) cp P"
proof (cases b)
  case True
  have "holds (seq m1 f) cp P"
  proof (rule holds_seq [OF assms(1)])
    fix e tr assume "Q (Inl e) tr"
    with True show "P (Inl e) tr" by (rule assms(2))
  next
    fix x :: unit and tr1 assume "Q (Inr x) tr1"
    with True show "holds (f x) cp (\<lambda>r tr2. P r (tr1 @ tr2))"
      using assms(3) [of tr1] by simp
  qed
  with True show ?thesis by simp
next
  case False
  have "seq (return ()) f = f ()"
    by (rule ext) (simp add: seq_def return_def)
  with False assms(4) show ?thesis
    by simp
qed

lemma holds_seq_print:
  assumes "holds (f ()) cp (\<lambda>r tr. P r (Print line # tr))"
  shows "holds (seq (print line) f) cp P"
  unfolding print_def
  by (rule holds_seq_call) (simp_all add: assms)

lemma holds_close: "P (Inr ()) [Close t] \<Longrightarrow> holds (close t) cp P"
  by (simp add: close_def holds_call)

lemmas pipeline_defs = run_pipeline_def interpolate_def

lemmas pipeline_rules = holds_seq_ZonalSections holds_seq_calc_transports holds_seq_call
  holds_seq_read holds_seq_print holds_close


lemma run_pipeline_order_holds:
  "holds (run_pipeline m a) cp (\<lambda>r tr. sorted (map stage_rank tr))"
  unfolding pipeline_defs
  by (intro pipeline_rules holds_seq_plot [OF call_plotdiag_rank_holds];
      (simp add: sorted_append)?; auto)

lemma run_pipeline_stages_holds:
  "holds (run_pipeline m a) cp
     (\<lambda>r tr. r = Inr () \<longrightarrow>
        (\<exists>t s tau v t_on_v s_on_v trn rest.
           sections_ZonalSections m (tfile a) cp ''temperature'' = Inr t
         \<and> sections_ZonalSections m (sfile a) cp ''salinity'' = Inr s
         \<and> sections_ZonalSections m (taufile a) cp ''taux'' = Inr tau
         \<and> sections_ZonalSections m (vfile a) cp ''meridional_velocity'' = Inr v
         \<and> sections_interpolate m t v = Inr t_on_v
         \<and> sections_interpolate m s v = Inr s_on_v
         \<and> transports_calc_transports_from_sections m cp v tau t_on_v s_on_v = Inr trn
         \<and> tr = [LoadSection (tfile a) cp ''temperature'',
                   LoadSection (sfile a) cp ''salinity'',
                   LoadSection (taufile a) cp ''taux'',
                   LoadSection (vfile a) cp ''meridional_velocity'',
                   Interpolate t v, Interpolate s v,
                   CalcTransports cp v tau t_on_v s_on_v] @ rest
         \<and> (\<forall>ev\<in>set rest. is_obs ev \<or> is_plot ev \<or> is_print ev \<or> is_close ev)))"
  unfolding pipeline_defs
  by (intro pipeline_rules holds_seq_plot [OF call_plotdiag_kinds_holds]; simp; blast)

lemma run_pipeline_config_holds:
  "holds (run_pipeline m a) cp
     (\<lambda>r tr. (\<forall>p c k. LoadSection p c k \<in> set tr \<longrightarrow> c = cp)
        \<and> (\<forall>c v tau t s. CalcTransports c v tau t s \<in> set tr \<longrightarrow> c = cp)
        \<and> (\<forall>p. PlotDiagnostics p \<in> set tr \<longrightarrow>
              config_get cp ''output'' ''name'' = Inr (p_name p)
              \<and> config_get cp ''output'' ''outdir'' = Inr (p_outdir p)))"
  unfolding pipeline_defs
  by (intro pipeline_rules holds_seq_plot [OF call_plotdiag_args_holds]; simp; auto)

lemma run_pipeline_raised_holds:
  "holds (run_pipeline m a) cp
     (\<lambda>r tr. (\<forall>ev\<in>set (butlast tr). raised m ev = None)
        \<and> (\<forall>e. tr \<noteq> [] \<longrightarrow> raised m (last tr) = Some e \<longrightarrow> r = Inl e))"
  unfolding pipeline_defs
  by (intro pipeline_rules holds_seq_plot [OF call_plotdiag_raised_holds];
      simp add: error_of_def butlast_append)

lemma run_pipeline_close_holds:
  "holds (run_pipeline m a) cp
     (\<lambda>r tr. ((\<exists>ev\<in>set tr. is_close ev) \<longleftrightarrow> r = Inr ())
        \<and> ((\<exists>ev\<in>set tr. is_print ev) \<longleftrightarrow> r = Inr ()))"
  unfolding pipeline_defs
  by (intro pipeline_rules holds_seq_plot [OF call_plotdiag_quiet_holds]; simp)

lemma run_pipeline_save_holds:
  "holds (run_pipeline m a) cp
     (\<lambda>r tr. r = Inr () \<longrightarrow>
        (\<exists>trn. last tr = Close trn
           \<and> last (butlast tr) = Print (''SAVING: '' @ trans_filepath m trn)
           \<and> (\<exists>ev\<in>set (butlast (butlast tr)). created m ev = Some trn))
        \<and> 2 \<le> length tr
        \<and> (\<forall>ev\<in>set (butlast (butlast tr)). \<not> is_print ev \<and> \<not> is_close ev))"
  unfolding pipeline_defs
  by (intro pipeline_rules holds_seq_plot [OF call_plotdiag_quiet_holds];
      simp add: butlast_append)

lemma run_pipeline_plot_holds:
  "holds (run_pipeline m a) cp
     (\<lambda>r tr.
        ((\<exists>ev\<in>set tr. is_obs ev \<or> is_plot ev) \<longrightarrow>
           config_getboolean cp ''output'' ''plot'' = Inr True)
      \<and> (r = Inr () \<longrightarrow> config_getboolean cp ''output'' ''plot'' = Inr True \<longrightarrow>
           (\<exists>p. PlotDiagnostics p \<in> set tr))
      \<and> (config_getboolean cp ''output'' ''plot'' = Inr False \<longrightarrow>
           (\<forall>ev\<in>set tr. \<forall>trn. created m ev = Some trn \<longrightarrow>
              r = Inr () \<and> Print (''SAVING: '' @ trans_filepath m trn) \<in> set tr
              \<and> Close trn \<in> set tr)))"
  unfolding pipeline_defs
  by (intro pipeline_rules holds_seq_plot [OF call_plotdiag_reached_holds]; simp)


section \<open>main\<close>

lemma output_not_default [simp]: "''output'' \<noteq> default_section"
  by (simp add: default_section_def)

lemma config_set_again:
  assumes "config_set cp section option v = Inr cp1"
    and "section \<noteq> []" and "section \<noteq> default_section"
  shows "\<exists>cp2. config_set cp1 section option' v' = Inr cp2"
  using assms
  by (auto simp: config_set_def update_conv' split: option.splits)

lemma update_config_result:
  assumes "update_config a cp = (r, cp1, tr)"
  shows "tr = [] \<and>
    ((\<exists>e. r = Inl e \<and> cp1 = cp)
     \<or> (r = Inr ()
        \<and> config_get cp1 ''output'' ''name'' =
            (case name a of Some n \<Rightarrow> Inr n | None \<Rightarrow> config_get cp ''output'' ''name'')
        \<and> config_get cp1 ''output'' ''outdir'' =
            (case outdir a of Some d \<Rightarrow> Inr d | None \<Rightarrow> config_get cp ''output'' ''outdir'')))"
proof (cases "name a")
  case None
  note name = this
  show ?thesis
  proof (cases "outdir a")
    case None
    with name assms show ?thesis
      by (simp add: update_config_def seq_def return_def)
  next
    case (Some d)
    with name assms show ?thesis
      by (auto simp: update_config_def seq_def return_def write_config_def
          config_get_after_set split: sum.splits)
  qed
next
  case (Some n)
  note name = this
  show ?thesis
  proof (cases "config_set cp ''output'' ''name'' n")
    case (Inl e)
    with name assms show ?thesis
      by (auto simp: update_config_def seq_def write_config_def)
  next
    case (Inr cp2)
    note set_name = this
    show ?thesis
    proof (cases "outdir a")
      case None
      with name set_name assms show ?thesis
        by (auto simp: update_config_def seq_def return_def write_config_def
            config_get_after_set)
    next
      case (Some d)
      from config_set_again [OF set_name, of "''outdir''" d]
      obtain cp3 where set_outdir: "config_set cp2 ''output'' ''outdir'' d = Inr cp3"
        by auto
      with Some name set_name assms show ?thesis
        by (auto simp: update_config_def seq_def write_config_def config_get_after_set)
    qed
  qed
qed

lemma main_cases:
  fixes m :: "('sec, 'trans, 'obs) modules"
  assumes "main m a cp = (r, cp', tr)"
  shows "(\<exists>e. r = Inl e \<and> tr = [] \<and> cp' = cp)
     \<or> (update_config a cp = (Inr (), cp', [] :: ('sec, 'trans, 'obs) event list)
        \<and> run_pipeline m a cp' = (r, cp', tr))"
proof -
  obtain r1 cp1 and tr1 :: "('sec, 'trans, 'obs) event list"
    where upd: "update_config a cp = (r1, cp1, tr1)"
    using prod_cases3 by blast
  from update_config_result [OF upd] have tr1: "tr1 = []"
    and r1: "(\<exists>e. r1 = Inl e \<and> cp1 = cp) \<or> r1 = Inr ()"
    by auto
  show ?thesis
  proof (cases r1)
    case (Inl e)
    with upd tr1 r1 assms show ?thesis
      by (auto simp: main_def seq_def)
  next
    case (Inr u)
    obtain r2 cp2 tr2 where run: "run_pipeline m a cp1 = (r2, cp2, tr2)"
      by (cases "run_pipeline m a cp1")
    from holdsD [OF run_pipeline_order_holds run] have "cp2 = cp1"
      by simp
    with Inr upd tr1 run assms show ?thesis
      by (auto simp: main_def seq_def)
  qed
qed


section \<open>The sample runs, evaluated\<close>

lemmas run_defs =
  main_def update_config_def run_pipeline_def call_plotdiag_def load_if_specified_def
  seq_def return_def call_def read_config_def write_config_def
  ZonalSections_def interpolate_def calc_transports_from_sections_def
  HeatTransportObs_def FloridaCurrentObs_def StreamFunctionObs_def VolumeTransportObs_def
  plot_diagnostics_def print_def close_def
  get_config_opt_def config_has_option_def config_get_def config_set_def
  config_getboolean_def BOOLEAN_STATES_def default_section_def
  optionxform_def lower_def lower_char_def

lemmas sample_defs =
  sample_config_def sample_modules_def sample_args_def sample_merged_def sample_stages_def
  sample_plot_def plot_fails_def temperature_missing_def no_observations_def plot_off_def

lemma sample_run:
  "main sample_modules sample_args sample_config =
     (Inr (), sample_merged,
      sample_stages @
      [LoadObs HeatTransport ''oht.nc'' (Some ''monthly''),
       LoadObs FloridaCurrent ''fc.nc'' (Some ''monthly''),
       PlotDiagnostics sample_plot,
       Print ''SAVING: /out/run2.nc'', Close ''trans''])"
  by (simp add: run_defs sample_defs)

lemma sample_call_plotdiag:
  "call_plotdiag sample_modules ''trans'' sample_merged =
     (Inr (), sample_merged,
      [LoadObs HeatTransport ''oht.nc'' (Some ''monthly''),
       LoadObs FloridaCurrent ''fc.nc'' (Some ''monthly''),
       PlotDiagnostics sample_plot])"
  by (simp add: run_defs sample_defs)

lemma plot_fails_run:
  "main plot_fails sample_args sample_config =
     (Inl (ComputationError ''plot''), sample_merged,
      sample_stages @
      [LoadObs HeatTransport ''oht.nc'' (Some ''monthly''),
       LoadObs FloridaCurrent ''fc.nc'' (Some ''monthly''),
       PlotDiagnostics sample_plot])"
  by (simp add: run_defs sample_defs)

lemma temperature_missing_run:
  "main temperature_missing sample_args sample_config =
     (Inl (DataLoadError ''t.nc''), sample_merged,
      [LoadSection ''t.nc'' sample_merged ''temperature''])"
  by (simp add: run_defs sample_defs)

lemma plot_off_run:
  "main sample_modules (sample_args\<lparr>name := None\<rparr>) plot_off =
     (Inr (), plot_off,
      [LoadSection ''t.nc'' plot_off ''temperature'',
       LoadSection ''s.nc'' plot_off ''salinity'',
       LoadSection ''tau.nc'' plot_off ''taux'',
       LoadSection ''v.nc'' plot_off ''meridional_velocity'',
       Interpolate ''temperature'' ''meridional_velocity'',
       Interpolate ''salinity'' ''meridional_velocity'',
       CalcTransports plot_off ''meridional_velocity'' ''taux''
         ''temperature_on_v'' ''salinity_on_v'',
       Print ''SAVING: /out/run2.nc'', Close ''trans''])"
  by (simp add: run_defs sample_defs)



section \<open>Observation loading in call_plotdiag\<close>

text \<open>
  Claim C1. In a call of \<^verbatim>\<open>call_plotdiag\<close> that reaches the reporter, each of the four
  observation arguments is an object exactly when the configuration has the option of the
  \<^verbatim>\<open>observations\<close> section that names its source file, and it is then the object the
  matching loader returned for that file; it is \<^verbatim>\<open>None\<close> otherwise. No loader is
  called for a kind whose option is missing, whether or not the reporter is reached.
\<close>

theorem call_plotdiag_observation_sets:
  assumes "call_plotdiag m trn cp = (r, cp', tr)"
  shows
    "(\<forall>p. PlotDiagnostics p \<in> set tr \<longrightarrow>
        (p_obs_oht p \<noteq> None \<longleftrightarrow> config_has_option cp ''observations'' ''heat_transports'')
      \<and> (\<forall>ob. p_obs_oht p = Some ob \<longrightarrow>
            (\<exists>f ta. config_get cp ''observations'' ''heat_transports'' = Inr f
               \<and> LoadObs HeatTransport f ta \<in> set tr
               \<and> observations_HeatTransportObs m f ta = Inr ob))
      \<and> (p_obs_fc p \<noteq> None \<longleftrightarrow> config_has_option cp ''observations'' ''florida_current'')
      \<and> (\<forall>ob. p_obs_fc p = Some ob \<longrightarrow>
            (\<exists>f ta. config_get cp ''observations'' ''florida_current'' = Inr f
               \<and> LoadObs FloridaCurrent f ta \<in> set tr
               \<and> observations_FloridaCurrentObs m f ta = Inr ob))
      \<and> (p_obs_sf p \<noteq> None \<longleftrightarrow> config_has_option cp ''observations'' ''streamfunctions'')
      \<and> (\<forall>ob. p_obs_sf p = Some ob \<longrightarrow>
            (\<exists>f ta. config_get cp ''observations'' ''streamfunctions'' = Inr f
               \<and> LoadObs StreamFunction f ta \<in> set tr
               \<and> observations_StreamFunctionObs m f ta = Inr ob))
      \<and> (p_obs_vol p \<noteq> None \<longleftrightarrow> config_has_option cp ''observations'' ''volume_transports'')
      \<and> (\<forall>ob. p_obs_vol p = Some ob \<longrightarrow>
            (\<exists>f ta. config_get cp ''observations'' ''volume_transports'' = Inr f
               \<and> LoadObs VolumeTransport f ta \<in> set tr
               \<and> observations_VolumeTransportObs m f ta = Inr ob)))
   \<and> (\<forall>k f ta. LoadObs k f ta \<in> set tr \<longrightarrow>
         config_has_option cp ''observations''
           (case k of HeatTransport \<Rightarrow> ''heat_transports''
            | FloridaCurrent \<Rightarrow> ''florida_current''
            | StreamFunction \<Rightarrow> ''streamfunctions''
            | VolumeTransport \<Rightarrow> ''volume_transports''))"
  using holdsD [OF call_plotdiag_observations_holds assms] by (rule conjunct2)

theorem call_plotdiag_observation_sets_witness:
  "PlotDiagnostics sample_plot
     \<in> set (snd (snd (call_plotdiag sample_modules ''trans'' sample_merged)))
   \<and> p_obs_oht sample_plot = Some ''oht.nc''
   \<and> config_has_option sample_merged ''observations'' ''heat_transports''
   \<and> p_obs_vol sample_plot = None
   \<and> \<not> config_has_option sample_merged ''observations'' ''volume_transports''"
  using call_plotdiag_observation_sets [OF sample_call_plotdiag]
  by (simp add: sample_call_plotdiag)
    (simp add: sample_plot_def sample_merged_def config_has_option_def default_section_def)

text \<open>
  Claim C8. Every observation loader that \<^verbatim>\<open>call_plotdiag\<close> calls is given the same
  \<^verbatim>\<open>time_avg\<close>: the value of the option \<^verbatim>\<open>time_avg\<close> of the \<^verbatim>\<open>observations\<close>
  section, or \<^verbatim>\<open>None\<close> when the configuration has no such option.
\<close>

theorem call_plotdiag_time_avg:
  assumes "call_plotdiag m trn cp = (r, cp', tr)"
  shows "\<forall>k f ta. LoadObs k f ta \<in> set tr \<longrightarrow>
           get_config_opt cp ''observations'' ''time_avg'' = Inr ta
           \<and> (\<not> config_has_option cp ''observations'' ''time_avg'' \<longrightarrow> ta = None)"
proof (intro allI impI)
  fix k f ta
  assume "LoadObs k f ta \<in> set tr"
  with holdsD [OF call_plotdiag_time_avg_holds assms]
  have ta: "get_config_opt cp ''observations'' ''time_avg'' = Inr ta"
    by blast
  then show "get_config_opt cp ''observations'' ''time_avg'' = Inr ta
      \<and> (\<not> config_has_option cp ''observations'' ''time_avg'' \<longrightarrow> ta = None)"
    by (auto simp: get_config_opt_def)
qed

theorem call_plotdiag_time_avg_witness:
  "LoadObs FloridaCurrent ''fc.nc'' (Some ''monthly'')
     \<in> set (snd (snd (call_plotdiag sample_modules ''trans'' sample_merged)))
   \<and> LoadObs HeatTransport ''oht.nc'' (Some ''monthly'')
     \<in> set (snd (snd (call_plotdiag sample_modules ''trans'' sample_merged)))
   \<and> get_config_opt sample_merged ''observations'' ''time_avg'' = Inr (Some ''monthly'')"
  using call_plotdiag_time_avg [OF sample_call_plotdiag]
  by (simp add: sample_call_plotdiag)






section \<open>get_config_opt on a configuration that lacks the option or the section\<close>




lemma two_last:
  assumes "2 \<le> length xs"
  shows "xs = butlast (butlast xs) @ [last (butlast xs), last xs]"
proof -
  from assms have "xs \<noteq> []" and "butlast xs \<noteq> []"
    by (auto simp: length_0_conv [symmetric] simp del: length_0_conv)
  then have "butlast xs = butlast (butlast xs) @ [last (butlast xs)]"
    and "xs = butlast xs @ [last xs]"
    by simp_all
  then show ?thesis
    by (metis append.assoc append_Cons append_Nil)
qed

section \<open>The order of the pipeline\<close>

text \<open>
  Claim C2. The calls of a run of \<^verbatim>\<open>main\<close> come in the order of the pipeline: the
  temperature, salinity, wind stress and velocity sections are loaded, then a section is
  interpolated, then the transports are computed, then observations are loaded, then the
  diagnostics are plotted, then the message is printed and the result closed. A run that
  returns has loaded the four sections in that order from the four files of the command
  line, has interpolated temperature onto velocity and then salinity onto velocity, and
  has then called \<^verbatim>\<open>calc_transports_from_sections\<close> with the configuration, the velocity
  section, the wind stress section and the two interpolated sections; every later call is
  an observation load, the report, the message or the close.
\<close>

theorem main_stage_order:
  assumes "main m a cp = (r, cp', tr)"
  shows "sorted (map stage_rank tr)
    \<and> (r = Inr () \<longrightarrow>
        (\<exists>t s tau v t_on_v s_on_v trn rest.
           sections_ZonalSections m (tfile a) cp' ''temperature'' = Inr t
         \<and> sections_ZonalSections m (sfile a) cp' ''salinity'' = Inr s
         \<and> sections_ZonalSections m (taufile a) cp' ''taux'' = Inr tau
         \<and> sections_ZonalSections m (vfile a) cp' ''meridional_velocity'' = Inr v
         \<and> sections_interpolate m t v = Inr t_on_v
         \<and> sections_interpolate m s v = Inr s_on_v
         \<and> transports_calc_transports_from_sections m cp' v tau t_on_v s_on_v = Inr trn
         \<and> tr = [LoadSection (tfile a) cp' ''temperature'',
                   LoadSection (sfile a) cp' ''salinity'',
                   LoadSection (taufile a) cp' ''taux'',
                   LoadSection (vfile a) cp' ''meridional_velocity'',
                   Interpolate t v, Interpolate s v,
                   CalcTransports cp' v tau t_on_v s_on_v] @ rest
         \<and> (\<forall>ev\<in>set rest. is_obs ev \<or> is_plot ev \<or> is_print ev \<or> is_close ev)))"
  using main_cases [OF assms]
proof (elim disjE exE conjE)
  fix e
  assume "r = Inl e" "tr = []"
  then show ?thesis
    by simp
next
  assume run: "run_pipeline m a cp' = (r, cp', tr)"
  from holdsD [OF run_pipeline_order_holds run] holdsD [OF run_pipeline_stages_holds run]
  show ?thesis
    by blast
qed

theorem main_stage_order_witness:
  "fst (main sample_modules sample_args sample_config) = Inr ()
   \<and> sorted (map stage_rank (snd (snd (main sample_modules sample_args sample_config))))
   \<and> take 7 (snd (snd (main sample_modules sample_args sample_config))) = sample_stages"
  using main_stage_order [OF sample_run]
  by (simp add: sample_run) (simp add: sample_stages_def)

section \<open>The command-line overrides\<close>



section \<open>The configuration after the overrides\<close>

text \<open>
  Claim C9. Once the overrides are in the configuration, the rest of \<^verbatim>\<open>main\<close> leaves
  the configuration object as it is: the object at the end of the pipeline is the one it
  started on, and it is the one every stage that takes a configuration was handed. The
  stages themselves are taken as the design describes them, as functions that return new
  objects.
\<close>

theorem run_pipeline_keeps_config:
  assumes "run_pipeline m a cp = (r, cp', tr)"
  shows "cp' = cp
    \<and> (\<forall>path c kind. LoadSection path c kind \<in> set tr \<longrightarrow> c = cp)
    \<and> (\<forall>c v tau t s. CalcTransports c v tau t s \<in> set tr \<longrightarrow> c = cp)"
  using holdsD [OF run_pipeline_config_holds assms] by blast

theorem run_pipeline_keeps_config_witness:
  "fst (snd (main sample_modules sample_args sample_config)) = sample_merged
   \<and> fst (snd (run_pipeline sample_modules sample_args sample_merged)) = sample_merged"
  using run_pipeline_keeps_config [of sample_modules sample_args sample_merged
      "fst (run_pipeline sample_modules sample_args sample_merged)"
      "fst (snd (run_pipeline sample_modules sample_args sample_merged))"
      "snd (snd (run_pipeline sample_modules sample_args sample_merged))"]
  by (simp add: sample_run)


section \<open>The end of a run\<close>

text \<open>
  Claim C4, as stated: on every exit path of the pipeline, a failure after the transport
  result was created included, the output file handle of the result is closed. It fails
  on the sample run whose plotting routine raises: the result has been created, the run
  ends with the error of the plotting routine, and \<^verbatim>\<open>close\<close> has not been called.
\<close>

theorem main_closes_on_failure_counterexample:
  "fst (main plot_fails sample_args sample_config) = Inl (ComputationError ''plot'')
   \<and> list_ex is_calc (snd (snd (main plot_fails sample_args sample_config)))
   \<and> \<not> list_ex is_close (snd (snd (main plot_fails sample_args sample_config)))"
  by (simp add: plot_fails_run sample_stages_def)

text \<open>
  Claim C4, amended: a run of \<^verbatim>\<open>main\<close> closes the transport result exactly when it
  returns; a run that ends with an error, at whatever stage, has not called
  \<^verbatim>\<open>close\<close>.
\<close>

theorem main_closes_iff_returns:
  assumes "main m a cp = (r, cp', tr)"
  shows "(\<exists>ev\<in>set tr. is_close ev) \<longleftrightarrow> r = Inr ()"
  using main_cases [OF assms]
proof (elim disjE exE conjE)
  fix e
  assume "r = Inl e" "tr = []"
  then show ?thesis
    by simp
next
  assume run: "run_pipeline m a cp' = (r, cp', tr)"
  from holdsD [OF run_pipeline_close_holds run] show ?thesis
    by blast
qed

theorem main_closes_iff_returns_witness:
  "fst (main sample_modules sample_args sample_config) = Inr ()
   \<and> list_ex is_close (snd (snd (main sample_modules sample_args sample_config)))"
  using main_closes_iff_returns [OF sample_run]
  by (simp add: sample_run list_ex_iff)

text \<open>
  Claim C5. In a run of \<^verbatim>\<open>main\<close>, a call that raises is the last call of the run, and
  the run ends with the error it raised: every call before the last one has returned,
  nothing is called after a failure and no call is made again. A run that ends with an
  error has neither printed the saving message nor closed the result.
\<close>

theorem main_failure_propagates:
  assumes "main m a cp = (r, cp', tr)"
  shows "(\<forall>ev\<in>set (butlast tr). raised m ev = None)
    \<and> (\<forall>e. tr \<noteq> [] \<longrightarrow> raised m (last tr) = Some e \<longrightarrow> r = Inl e)
    \<and> (\<forall>e. r = Inl e \<longrightarrow> (\<forall>ev\<in>set tr. \<not> is_print ev \<and> \<not> is_close ev))"
  using main_cases [OF assms]
proof (elim disjE exE conjE)
  fix e
  assume "r = Inl e" "tr = []"
  then show ?thesis
    by simp
next
  assume run: "run_pipeline m a cp' = (r, cp', tr)"
  from holdsD [OF run_pipeline_raised_holds run]
  have calls: "\<forall>ev\<in>set (butlast tr). raised m ev = None"
    "\<forall>e. tr \<noteq> [] \<longrightarrow> raised m (last tr) = Some e \<longrightarrow> r = Inl e"
    by blast+
  from holdsD [OF run_pipeline_close_holds run]
  have "\<forall>e. r = Inl e \<longrightarrow> (\<forall>ev\<in>set tr. \<not> is_print ev \<and> \<not> is_close ev)"
    by auto
  with calls show ?thesis
    by blast
qed

theorem main_failure_propagates_witness:
  "fst (main temperature_missing sample_args sample_config) = Inl (DataLoadError ''t.nc'')
   \<and> snd (snd (main temperature_missing sample_args sample_config)) =
       [LoadSection ''t.nc'' sample_merged ''temperature'']
   \<and> raised temperature_missing (LoadSection ''t.nc'' sample_merged ''temperature'') =
       Some (DataLoadError ''t.nc'')"
  using main_failure_propagates [OF temperature_missing_run]
  by (simp add: temperature_missing_run)
    (simp add: temperature_missing_def error_of_def)

text \<open>
  Claim C6. A run of \<^verbatim>\<open>main\<close> loads an observation dataset or calls the plotting
  routine only if the option \<^verbatim>\<open>plot\<close> of the \<^verbatim>\<open>output\<close> section reads as true; a run
  that returns with the option true has called the plotting routine; and with the option
  false a run whose transport computation has returned a result returns, having printed
  the saving message for that result and closed it.
\<close>

theorem main_plot_option:
  assumes "main m a cp = (r, cp', tr)"
  shows
    "((\<exists>ev\<in>set tr. is_obs ev \<or> is_plot ev) \<longrightarrow>
        config_getboolean cp' ''output'' ''plot'' = Inr True)
   \<and> (r = Inr () \<longrightarrow> config_getboolean cp' ''output'' ''plot'' = Inr True \<longrightarrow>
        (\<exists>p. PlotDiagnostics p \<in> set tr))
   \<and> (config_getboolean cp' ''output'' ''plot'' = Inr False \<longrightarrow>
        (\<forall>ev\<in>set tr. \<forall>trn. created m ev = Some trn \<longrightarrow>
           r = Inr () \<and> Print (''SAVING: '' @ trans_filepath m trn) \<in> set tr
           \<and> Close trn \<in> set tr))"
  using main_cases [OF assms]
proof (elim disjE exE conjE)
  fix e
  assume "r = Inl e" "tr = []"
  then show ?thesis
    by simp
next
  assume run: "run_pipeline m a cp' = (r, cp', tr)"
  from holdsD [OF run_pipeline_plot_holds run] show ?thesis
    by (rule conjunct2)
qed

theorem main_plot_option_witness:
  "config_getboolean sample_merged ''output'' ''plot'' = Inr True
   \<and> PlotDiagnostics sample_plot
       \<in> set (snd (snd (main sample_modules sample_args sample_config)))
   \<and> config_getboolean plot_off ''output'' ''plot'' = Inr False
   \<and> fst (main sample_modules (sample_args\<lparr>name := None\<rparr>) plot_off) = Inr ()
   \<and> \<not> list_ex is_obs (snd (snd (main sample_modules (sample_args\<lparr>name := None\<rparr>) plot_off)))
   \<and> \<not> list_ex is_plot (snd (snd (main sample_modules (sample_args\<lparr>name := None\<rparr>) plot_off)))
   \<and> Close ''trans''
       \<in> set (snd (snd (main sample_modules (sample_args\<lparr>name := None\<rparr>) plot_off)))"
  using main_plot_option [OF sample_run] main_plot_option [OF plot_off_run]
  by (simp add: sample_run plot_off_run)
    (simp add: config_getboolean_def config_get_def BOOLEAN_STATES_def default_section_def
      lower_def lower_char_def sample_merged_def plot_off_def)

text \<open>
  Claim C7. A run of \<^verbatim>\<open>main\<close> that returns ends with two calls: it prints
  \<^verbatim>\<open>SAVING:\<close> followed by the file path of the transport result, and then closes that
  result. The result is the one the transport computation returned, and nothing before
  these two calls prints or closes, so the result is closed once.
\<close>

theorem main_reports_and_closes:
  assumes "main m a cp = (Inr (), cp', tr)"
  shows "\<exists>trn pre.
      tr = pre @ [Print (''SAVING: '' @ trans_filepath m trn), Close trn]
    \<and> (\<forall>ev\<in>set pre. \<not> is_print ev \<and> \<not> is_close ev)
    \<and> (\<exists>ev\<in>set pre. created m ev = Some trn)"
  using main_cases [OF assms]
proof (elim disjE exE conjE)
  fix e :: error
  assume "Inr () = Inl e"
  then show ?thesis
    by simp
next
  assume run: "run_pipeline m a cp' = (Inr (), cp', tr)"
  from holdsD [OF run_pipeline_save_holds run]
  obtain trn where len: "2 \<le> length tr"
    and last: "last tr = Close trn"
      "last (butlast tr) = Print (''SAVING: '' @ trans_filepath m trn)"
    and made: "\<exists>ev\<in>set (butlast (butlast tr)). created m ev = Some trn"
    and quiet: "\<forall>ev\<in>set (butlast (butlast tr)). \<not> is_print ev \<and> \<not> is_close ev"
    by auto
  from two_last [OF len] last
  have "tr = butlast (butlast tr) @ [Print (''SAVING: '' @ trans_filepath m trn), Close trn]"
    by simp
  with made quiet show ?thesis
    by blast
qed

theorem main_reports_and_closes_witness:
  "fst (main sample_modules sample_args sample_config) = Inr ()
   \<and> drop 10 (snd (snd (main sample_modules sample_args sample_config))) =
       [Print ''SAVING: /out/run2.nc'', Close ''trans'']
   \<and> trans_filepath sample_modules ''trans'' = ''/out/run2.nc''"
  using main_reports_and_closes [OF sample_run]
  by (simp add: sample_run) (simp add: sample_stages_def sample_modules_def)

end
